theory Spec2Isabelle
  imports Main
begin

section \<open>The tunnel socket pool of \<open>proxy.js\<close>\<close>

text \<open>
  A \<open>Proxy\<close> object keeps the idle tunnel sockets of one client in \<open>self.sockets\<close> and the
  request handlers that found no idle socket in \<open>self.waiting\<close>. Sockets and handlers are
  JavaScript objects; the model names each by a number (its identity). The methods keep
  their names without the leading underscore (\<open>_handle_socket\<close> is \<open>handle_socket\<close>); the
  callbacks the source writes inline are named after what they are attached to.

  The record holds the fields the source assigns (\<open>sockets\<close>, \<open>waiting\<close>, \<open>id\<close> as
  \<open>ident\<close>, \<open>max_tcp_sockets\<close>, \<open>started\<close>, \<open>conn_timeout\<close> as the flag that a timer is
  pending), the part of the runtime the source reads
  (\<open>listening\<close>: the \<open>net.Server\<close> still has its handle; \<open>destroyed\<close>: the sockets whose
  \<open>destroyed\<close> flag is set), and a log of what the source does to the outside
  (\<open>calls\<close>: every \<open>handler(sock)\<close> and \<open>handler(null)\<close> in order; \<open>ended\<close>: every
  \<open>socket.end()\<close>; \<open>end_emitted\<close>: how often \<open>emit('end')\<close> ran) together with three
  bookkeeping lists the source does not keep (\<open>admitted\<close>: sockets pushed by
  \<open>_handle_socket\<close>; \<open>lent\<close>: sockets handed to a handler whose promise has not settled;
  \<open>closed\<close>: sockets whose close listener has run).
\<close>

type_synonym socket = nat
type_synonym handler = nat

datatype error = TypeError | Already_started | Invalid_subdomain

record proxy =
  sockets :: "socket list"
  waiting :: "handler list"
  ident :: string
  max_tcp_sockets :: nat
  started :: bool
  conn_timeout :: bool
  listening :: bool
  destroyed :: "socket list"
  calls :: "(handler \<times> socket option) list"
  ended :: "socket list"
  end_emitted :: nat
  admitted :: "socket list"
  lent :: "socket list"
  closed :: "socket list"

record proxy_opt =
  opt_id :: string
  opt_max_tcp_sockets :: "nat option"

text \<open>
  The constructor: \<open>opt.max_tcp_sockets || 10\<close> takes the default for a missing and for a
  zero option.
\<close>

definition new_Proxy :: "proxy_opt \<Rightarrow> proxy" where
  "new_Proxy opt =
     \<lparr> sockets = [], waiting = [], ident = opt_id opt,
       max_tcp_sockets =
         (case opt_max_tcp_sockets opt of
            None \<Rightarrow> 10
          | Some n \<Rightarrow> if n = 0 then 10 else n),
       started = False, conn_timeout = False, listening = False, destroyed = [],
       calls = [], ended = [], end_emitted = 0, admitted = [], lent = [], closed = [] \<rparr>"

text \<open>
  The logger is a \<open>winston.Logger\<close> built with the default (npm) levels. It has one method
  per level; calling any other property calls \<open>undefined\<close>, which raises a TypeError.
  Calls to an existing level return normally and change nothing the pool reads, so the
  model leaves them out; the one call to a missing method is kept.
\<close>

definition winston_levels :: "string list" where
  "winston_levels = [''error'', ''warn'', ''info'', ''verbose'', ''debug'', ''silly'']"

definition logger_call :: "string \<Rightarrow> error option" where
  "logger_call m = (if m \<in> set winston_levels then None else Some TypeError)"

text \<open>\<open>_maybe_destroy\<close>: clear the pending timer and arm a new one (5000 ms).\<close>

definition maybe_destroy :: "proxy \<Rightarrow> proxy" where
  "maybe_destroy p = p\<lparr>conn_timeout := True\<rparr>"

text \<open>
  \<open>_cleanup\<close>: clear the timer, call every queued handler with null in queue order, emit
  \<open>end\<close>. The source does not touch \<open>self.waiting\<close> or \<open>self.sockets\<close> here.
\<close>

definition cleanup :: "proxy \<Rightarrow> proxy" where
  "cleanup p =
     p\<lparr>conn_timeout := False,
       calls := calls p @ map (\<lambda>h. (h, None)) (waiting p),
       end_emitted := Suc (end_emitted p)\<rparr>"

text \<open>
  \<open>next_socket\<close>: shift the head idle socket; with none, queue the handler; otherwise call
  the handler with the socket. The handler is an async function: the call returns a promise
  and never throws, and the \<open>finally\<close> callback below runs when the promise settles.
\<close>

definition next_socket :: "handler \<Rightarrow> proxy \<Rightarrow> proxy" where
  "next_socket h p =
     (case sockets p of
        [] \<Rightarrow> p\<lparr>waiting := waiting p @ [h]\<rparr>
      | sock # rest \<Rightarrow>
          p\<lparr>sockets := rest, calls := calls p @ [(h, Some sock)], lent := lent p @ [sock]\<rparr>)"

text \<open>
  \<open>_process_waiting\<close>: shift the head waiter; if there is one, \<open>logger.ingo(...)\<close> runs before
  \<open>self.next_socket(wait_cb)\<close>. A thrown error leaves the assignments made so far in place,
  so the result is the error (if any) and the state.
\<close>

definition process_waiting :: "proxy \<Rightarrow> error option \<times> proxy" where
  "process_waiting p =
     (case waiting p of
        [] \<Rightarrow> (None, p)
      | wait_cb # rest \<Rightarrow>
          (let p1 = p\<lparr>waiting := rest\<rparr> in
           case logger_call ''ingo'' of
             Some e \<Rightarrow> (Some e, p1)
           | None \<Rightarrow> (None, next_socket wait_cb p1)))"

text \<open>
  The \<open>finally\<close> callback of \<open>next_socket\<close>, for the socket \<open>sock\<close> that was lent: push it back
  unless \<open>sock.destroyed\<close>; stop if no socket is idle; otherwise \<open>_process_waiting\<close>.
\<close>

definition next_socket_finally :: "socket \<Rightarrow> proxy \<Rightarrow> error option \<times> proxy" where
  "next_socket_finally sock p =
     (let p0 = p\<lparr>lent := remove1 sock (lent p)\<rparr>;
          p1 = (if sock \<in> set (destroyed p0) then p0
                else p0\<lparr>sockets := sockets p0 @ [sock]\<rparr>)
      in if sockets p1 = [] then (None, p1) else process_waiting p1)"

text \<open>
  \<open>_handle_socket\<close>: refuse (\<open>socket.end()\<close>) when \<open>self.sockets.length >= max_tcp_sockets\<close>;
  otherwise clear the timer, install the close and error listeners, push the socket and
  run \<open>_process_waiting\<close>.
\<close>

definition handle_socket :: "socket \<Rightarrow> proxy \<Rightarrow> error option \<times> proxy" where
  "handle_socket socket p =
     (if length (sockets p) \<ge> max_tcp_sockets p then (None, p\<lparr>ended := ended p @ [socket]\<rparr>)
      else process_waiting
             (p\<lparr>conn_timeout := False, sockets := sockets p @ [socket],
                admitted := admitted p @ [socket]\<rparr>))"

text \<open>
  The close listener of an admitted socket: \<open>indexOf\<close> and \<open>splice(idx, 1)\<close> remove its first
  occurrence from the idle list; with no idle socket left, \<open>_maybe_destroy\<close>.
\<close>

definition socket_close :: "socket \<Rightarrow> proxy \<Rightarrow> proxy" where
  "socket_close socket p =
     (let p1 = p\<lparr>sockets := remove1 socket (sockets p), closed := closed p @ [socket]\<rparr>
      in if sockets p1 = [] then maybe_destroy p1 else p1)"

text \<open>The error listener of an admitted socket: \<open>socket.destroy()\<close>.\<close>

definition socket_error :: "socket \<Rightarrow> proxy \<Rightarrow> proxy" where
  "socket_error socket p = p\<lparr>destroyed := List.insert socket (destroyed p)\<rparr>"

text \<open>
  \<open>self.server.close()\<close>: the server stops listening. The call does not throw, also on a
  server that is not running (the error would go to the callback of \<open>close\<close>, and the
  source passes none). The runtime emits the close event of the server once no
  connection is left, after this call or after any later call of \<open>close\<close>; that is the
  event \<open>Server_closed\<close> below.
\<close>

definition server_close :: "proxy \<Rightarrow> error option \<times> proxy" where
  "server_close p = (None, p\<lparr>listening := False\<rparr>)"

text \<open>
  The timer callback set by \<open>_maybe_destroy\<close>: try \<open>server.close()\<close>, on error \<open>_cleanup\<close>.
  Since \<open>close\<close> does not throw, the catch branch is never taken.
\<close>

definition timer_callback :: "proxy \<Rightarrow> proxy" where
  "timer_callback p =
     (case server_close (p\<lparr>conn_timeout := False\<rparr>) of
        (None, p1) \<Rightarrow> p1
      | (Some err, p1) \<Rightarrow> cleanup p1)"

record start_info =
  port :: nat
  max_conn_count :: nat

text \<open>
  \<open>start(cb)\<close>: the value is what \<open>cb\<close> receives. The port is chosen by the operating
  system and is a parameter here.
\<close>

definition start :: "nat \<Rightarrow> proxy \<Rightarrow> (error + start_info) \<times> proxy" where
  "start prt p =
     (if started p then (Inl Already_started, p)
      else (Inr \<lparr>port = prt, max_conn_count = max_tcp_sockets p\<rparr>,
            maybe_destroy (p\<lparr>started := True, listening := True\<rparr>)))"

subsection \<open>Events\<close>

text \<open>
  Everything after construction happens in callbacks. \<open>fire\<close> runs the callback of one
  event and gives the error thrown out of it (if any) and the state it leaves:
  \<^item> \<open>Start\<close>: \<open>start\<close> is called;
  \<^item> \<open>Connection\<close>: the server's connection listener (installed by \<open>start\<close>);
  \<^item> \<open>Next_socket\<close>: a caller asks for a socket;
  \<^item> \<open>Settled\<close>: the promise of the handler holding the socket settles;
  \<^item> \<open>Close_socket\<close>: the close listener of the socket (installed once, on admission);
    the runtime sets \<open>destroyed\<close> before it emits close;
  \<^item> \<open>Error_socket\<close>: the error listener of the socket;
  \<^item> \<open>Timeout\<close>: the pending timer fires;
  \<^item> \<open>Server_closed\<close>: the server's close listener (installed by \<open>start\<close>); the runtime
    emits close after \<open>server.close()\<close> when no connection is left, once for every such call.
\<close>

datatype event =
    Start nat
  | Connection socket
  | Next_socket handler
  | Settled socket
  | Close_socket socket
  | Error_socket socket
  | Timeout
  | Server_closed

fun fire :: "event \<Rightarrow> proxy \<Rightarrow> error option \<times> proxy" where
  "fire (Start prt) p = (None, snd (start prt p))"
| "fire (Connection s) p = (if started p then handle_socket s p else (None, p))"
| "fire (Next_socket h) p = (None, next_socket h p)"
| "fire (Settled s) p = (if s \<in> set (lent p) then next_socket_finally s p else (None, p))"
| "fire (Close_socket s) p =
     (if s \<in> set (admitted p) \<and> s \<notin> set (closed p)
      then (None, socket_close s (p\<lparr>destroyed := List.insert s (destroyed p)\<rparr>))
      else (None, p))"
| "fire (Error_socket s) p =
     (if s \<in> set (admitted p) then (None, socket_error s p) else (None, p))"
| "fire Timeout p = (if conn_timeout p then (None, timer_callback p) else (None, p))"
| "fire Server_closed p = (if started p then (None, cleanup p) else (None, p))"

text \<open>
  A run of events. An error thrown out of a callback does not undo what the callback
  assigned before, so the run goes on from the state the callback left.
\<close>

fun run :: "event list \<Rightarrow> proxy \<Rightarrow> proxy" where
  "run [] p = p"
| "run (e # es) p = run es (snd (fire e p))"

section \<open>The dispatcher and the registry of the server module\<close>

subsection \<open>\<open>maybe_bounce\<close>\<close>

text \<open>
  A request as the HTTP parser delivers it: \<open>headers\<close> is the normalised header object
  (looked up by name), \<open>rawHeaders\<close> the flat list name, value, name, value, ...
\<close>

record request =
  http_method :: string
  url :: string
  httpVersion :: string
  headers :: "(string \<times> string) list"
  rawHeaders :: "string list"

text \<open>
  What the dispatcher does to the outside, in the order of the source. \<open>res\<close> is the
  response object, \<open>sock\<close> the external peer's socket of an upgrade, \<open>socket\<close> the
  borrowed tunnel socket.
\<close>

datatype action =
    Res_statusCode nat
  | Res_end string
  | Req_connection_destroy
  | Sock_destroy
  | Sock_once_end
  | On_finished_res
  | Pipe_socket_to_sock socket
  | Pipe_sock_to_socket socket
  | Socket_write socket string
  | Http_request socket string string "(string \<times> string) list"
  | Pipe_req_to_client_req

text \<open>When the promise returned by the handler resolves.\<close>

datatype settles =
    At_once
  | On_socket_end socket
  | On_client_res_finished socket

text \<open>
  The header lines of the upgrade preamble: the loop
  \<open>for (i = 0; i < rawHeaders.length - 1; i += 2)\<close> takes the pairs and drops a last
  element without a partner.
\<close>

fun header_lines :: "string list \<Rightarrow> string list" where
  "header_lines (k # v # rest) = (k @ '': '' @ v) # header_lines rest"
| "header_lines [k] = []"
| "header_lines [] = []"

text \<open>\<open>Array.prototype.join\<close>.\<close>

fun join :: "string \<Rightarrow> string list \<Rightarrow> string" where
  "join sep [] = []"
| "join sep [x] = x"
| "join sep (x # y # ys) = x @ sep @ join sep (y # ys)"

definition crlf :: string where
  "crlf = [CHR 0x0D, CHR 0x0A]"

definition preamble :: "request \<Rightarrow> string" where
  "preamble req =
     join crlf
       ([http_method req @ '' '' @ url req @ '' HTTP/'' @ httpVersion req]
        @ header_lines (rawHeaders req) @ [[], []])"

text \<open>
  The handler passed to \<open>next_socket\<close>. \<open>res\<close> and \<open>sock\<close> say whether the response object
  and the peer socket were given (not null); \<open>finished\<close> is the value of the flag when
  the handler is called; the argument is the lent socket or null. The value is what the
  handler does before its first await, and when its promise resolves.
\<close>

definition bounce_handler ::
  "request \<Rightarrow> bool \<Rightarrow> bool \<Rightarrow> bool \<Rightarrow> socket option \<Rightarrow> action list \<times> settles" where
  "bounce_handler req res sock finished arg =
     (if finished then ([], At_once)
      else (case arg of
        None \<Rightarrow>
          ((if res then [Res_statusCode 504, Res_end []] else [])
           @ (if sock then [Sock_destroy] else [])
           @ [Req_connection_destroy], At_once)
      | Some socket \<Rightarrow>
          (if \<not> res
           then ([Pipe_socket_to_sock socket, Pipe_sock_to_socket socket,
                  Socket_write socket (preamble req)], On_socket_end socket)
           else ([Http_request socket (url req) (http_method req) (headers req),
                  Pipe_req_to_client_req], On_client_res_finished socket))))"

text \<open>
  \<open>maybe_bounce(req, res, sock, head)\<close>. \<open>tldjs.getSubdomain\<close> is a library function and a
  parameter here (null and the empty string are both falsy). The value is the boolean
  the function returns, what it does, and, when it calls \<open>client.next_socket(handler)\<close>,
  the subdomain of that client with the handler. \<open>head\<close> is a parameter of the source
  function; its body never mentions it.
\<close>

definition maybe_bounce ::
  "(string \<Rightarrow> string option) \<Rightarrow> (string \<rightharpoonup> proxy) \<Rightarrow> request \<Rightarrow> bool \<Rightarrow> bool \<Rightarrow> string option
     \<Rightarrow> bool \<times> action list \<times> (string \<times> (bool \<Rightarrow> socket option \<Rightarrow> action list \<times> settles)) option"
  where
  "maybe_bounce getSubdomain clnts req res sock head =
     (case map_of (headers req) ''host'' of
        None \<Rightarrow> (False, [], None)
      | Some hostname \<Rightarrow>
          (if hostname = [] then (False, [], None)
           else (case getSubdomain hostname of
              None \<Rightarrow> (False, [], None)
            | Some subdomain \<Rightarrow>
                (if subdomain = [] then (False, [], None)
                 else (case clnts subdomain of
                    None \<Rightarrow>
                      (True,
                       (if res
                        then [Res_statusCode 502,
                              Res_end (''no active client for '' @ [CHR 0x27] @ subdomain
                                       @ [CHR 0x27]),
                              Req_connection_destroy]
                        else (if sock then [Sock_destroy] else [])),
                       None)
                  | Some client \<Rightarrow>
                      (if sock
                       then (True, [Sock_once_end],
                             Some (subdomain, bounce_handler req res sock))
                       else (if res
                         then (True, [On_finished_res],
                               Some (subdomain, bounce_handler req res sock))
                         else (True, [Req_connection_destroy], None))))))))"

text \<open>
  What reaches the tunnel socket: the bytes the handler writes to it, then, once
  \<open>sock.pipe(socket)\<close> is wired, the chunks the peer socket emits from then on. Bytes the
  HTTP parser had read before (the \<open>head\<close> buffer) are not emitted again by the peer socket.
\<close>

fun written :: "socket \<Rightarrow> action list \<Rightarrow> string" where
  "written s [] = []"
| "written s (Socket_write t d # as) = (if t = s then d @ written s as else written s as)"
| "written s (a # as) = written s as"

definition tunnel_input :: "socket \<Rightarrow> action list \<Rightarrow> string list \<Rightarrow> string" where
  "tunnel_input s acts chunks =
     written s acts @ (if Pipe_sock_to_socket s \<in> set acts then concat chunks else [])"

text \<open>
  The server's upgrade listener: \<open>maybe_bounce(req, null, socket, head)\<close>; if that returns
  false the peer socket is destroyed.
\<close>

definition on_upgrade ::
  "(string \<Rightarrow> string option) \<Rightarrow> (string \<rightharpoonup> proxy) \<Rightarrow> request \<Rightarrow> string option
     \<Rightarrow> action list \<times> (string \<times> (bool \<Rightarrow> socket option \<Rightarrow> action list \<times> settles)) option"
  where
  "on_upgrade getSubdomain clnts req head =
     (case maybe_bounce getSubdomain clnts req False True head of
        (True, acts, borrow) \<Rightarrow> (acts, borrow)
      | (False, acts, borrow) \<Rightarrow> (acts @ [Sock_destroy], borrow))"

subsection \<open>\<open>new_client\<close> and the routes that create tunnels\<close>

text \<open>The process-wide \<open>clients\<close> object and \<open>stats.tunnels\<close>.\<close>

record registry =
  clients :: "string \<rightharpoonup> proxy"
  tunnels :: int

record server_opt =
  secure :: bool
  srv_max_tcp_sockets :: "nat option"

record client_info = start_info +
  info_id :: string

record json_info = client_info +
  info_url :: string

text \<open>
  \<open>new_client(id, opt, cb)\<close>; the value is what \<open>cb\<close> receives. \<open>rand_id\<close> is imported from
  the module \<open>./lib/rand_id\<close>: \<open>rnd\<close> is what it returns if called. \<open>prt\<close> is the port
  the operating system gives the new listener.
\<close>

definition new_client ::
  "string \<Rightarrow> server_opt \<Rightarrow> string \<Rightarrow> nat \<Rightarrow> registry \<Rightarrow> (error + client_info) \<times> registry" where
  "new_client id0 opt rnd prt reg =
     (let id1 = (if clients reg id0 \<noteq> None then rnd else id0);
          client = new_Proxy \<lparr>opt_id = id1, opt_max_tcp_sockets = srv_max_tcp_sockets opt\<rparr>;
          reg1 = reg\<lparr>clients := (clients reg)(id1 \<mapsto> client)\<rparr>
      in case start prt client of
           (Inl err, client1) \<Rightarrow> (Inl err, reg1\<lparr>clients := (clients reg1)(id1 := None)\<rparr>)
         | (Inr info, client1) \<Rightarrow>
             (Inr \<lparr>port = port info, max_conn_count = max_conn_count info, info_id = id1\<rparr>,
              reg1\<lparr>clients := (clients reg1)(id1 \<mapsto> client1), tunnels := tunnels reg1 + 1\<rparr>))"

text \<open>The listener \<open>new_client\<close> puts on the client's \<open>end\<close> event.\<close>

definition client_end :: "string \<Rightarrow> registry \<Rightarrow> registry" where
  "client_end id1 reg = reg\<lparr>tunnels := tunnels reg - 1, clients := (clients reg)(id1 := None)\<rparr>"

datatype response =
    Next_route
  | Json json_info
  | Failed nat string

definition schema :: "server_opt \<Rightarrow> string" where
  "schema opt = (if secure opt then ''https'' else ''http'')"

definition err_message :: "error \<Rightarrow> string" where
  "err_message e =
     (case e of
        Already_started \<Rightarrow> ''already started''
      | TypeError \<Rightarrow> ''logger.ingo is not a function''
      | Invalid_subdomain \<Rightarrow>
          ''Invalid subdomain. Subdomains must be lowercase and between 4 and 63 alphanumeric characters.'')"

text \<open>String concatenation with a missing \<open>req.headers.host\<close> gives \<open>undefined\<close>.\<close>

definition host_text :: "string option \<Rightarrow> string" where
  "host_text h = (case h of None \<Rightarrow> ''undefined'' | Some s \<Rightarrow> s)"

text \<open>
  \<open>app.get('/')\<close>, first handler: without the query parameter \<open>new\<close> go to the next route;
  otherwise \<open>req_id = rand_id()\<close> (\<open>rnd1\<close>), \<open>new_client(req_id, ...)\<close> (whose own \<open>rand_id\<close>
  call gives \<open>rnd2\<close>), and the url is built from \<open>req_id\<close>.
\<close>

definition get_root ::
  "server_opt \<Rightarrow> string option \<Rightarrow> string option \<Rightarrow> string \<Rightarrow> string \<Rightarrow> nat \<Rightarrow> registry
     \<Rightarrow> response \<times> registry" where
  "get_root opt query_new host rnd1 rnd2 prt reg =
     (case query_new of
        None \<Rightarrow> (Next_route, reg)
      | Some v \<Rightarrow>
          (let req_id = rnd1 in
           case new_client req_id opt rnd2 prt reg of
             (Inl err, reg1) \<Rightarrow> (Failed 500 (err_message err), reg1)
           | (Inr info, reg1) \<Rightarrow>
               (Json \<lparr>port = port info, max_conn_count = max_conn_count info,
                      info_id = info_id info,
                      info_url = schema opt @ ''://'' @ req_id @ ''.'' @ host_text host\<rparr>,
                reg1)))"

text \<open>\<open>/^[a-z0-9]{4,63}$/.test(req_id)\<close>.\<close>

definition valid_req_id :: "string \<Rightarrow> bool" where
  "valid_req_id s =
     (4 \<le> length s \<and> length s \<le> 63
      \<and> list_all (\<lambda>c. c \<in> set ''abcdefghijklmnopqrstuvwxyz0123456789'') s)"

text \<open>
  \<open>app.get('/:req_id')\<close>: an invalid id goes to the error handler with status 403, as does
  an error of \<open>new_client\<close> (with the default status 500); otherwise the url is built
  from \<open>req_id\<close>.
\<close>

definition get_req_id ::
  "server_opt \<Rightarrow> string \<Rightarrow> string option \<Rightarrow> string \<Rightarrow> nat \<Rightarrow> registry \<Rightarrow> response \<times> registry" where
  "get_req_id opt req_id host rnd prt reg =
     (if \<not> valid_req_id req_id then (Failed 403 (err_message Invalid_subdomain), reg)
      else (case new_client req_id opt rnd prt reg of
             (Inl err, reg1) \<Rightarrow> (Failed 500 (err_message err), reg1)
           | (Inr info, reg1) \<Rightarrow>
               (Json \<lparr>port = port info, max_conn_count = max_conn_count info,
                      info_id = info_id info,
                      info_url = schema opt @ ''://'' @ req_id @ ''.'' @ host_text host\<rparr>,
                reg1)))"

section \<open>Vocabulary of the specification\<close>

text \<open>
  The specification speaks of the size of a pool: the number of sockets admitted and not
  yet closed. The source has no such counter; it is read off the bookkeeping lists.
\<close>

definition pool_size :: "proxy \<Rightarrow> nat" where
  "pool_size p = length (filter (\<lambda>s. s \<notin> set (closed p)) (admitted p))"

text \<open>
  Every connection the server delivers is a new socket object: along a run, no
  \<open>Connection\<close> event carries a socket the pool has admitted before.
\<close>

fun fresh_connections :: "event list \<Rightarrow> proxy \<Rightarrow> bool" where
  "fresh_connections [] p = True"
| "fresh_connections (Connection s # es) p =
     (s \<notin> set (admitted p) \<and> fresh_connections es (snd (fire (Connection s) p)))"
| "fresh_connections (e # es) p = fresh_connections es (snd (fire e p))"

text \<open>What holds of the idle list and the bookkeeping lists after every callback.\<close>

definition pool_inv :: "proxy \<Rightarrow> bool" where
  "pool_inv p =
     (distinct (sockets p @ lent p)
      \<and> set (sockets p @ lent p) \<subseteq> set (admitted p)
      \<and> distinct (admitted p)
      \<and> set (closed p) \<subseteq> set (destroyed p)
      \<and> set (closed p) \<subseteq> set (admitted p)
      \<and> set (sockets p) \<inter> set (closed p) = {}
      \<and> set (admitted p) \<subseteq> set (sockets p) \<union> set (lent p) \<union> set (destroyed p))"

text \<open>
  The one event whose callback runs \<open>_cleanup\<close> is the close event of the server.
  \<open>cleanup_runs\<close> counts these events along a run.
\<close>

fun runs_cleanup :: "event \<Rightarrow> proxy \<Rightarrow> bool" where
  "runs_cleanup Server_closed p = started p"
| "runs_cleanup e p = False"

fun cleanup_runs :: "event list \<Rightarrow> proxy \<Rightarrow> nat" where
  "cleanup_runs [] p = 0"
| "cleanup_runs (e # es) p =
     (if runs_cleanup e p then 1 else 0) + cleanup_runs es (snd (fire e p))"

section \<open>The dequeue path\<close>

lemmas pool_defs = new_Proxy_def maybe_destroy_def cleanup_def next_socket_def
  process_waiting_def next_socket_finally_def handle_socket_def socket_close_def
  socket_error_def server_close_def timer_callback_def start_def

lemma logger_ingo: "logger_call ''ingo'' = Some TypeError"
  by (simp add: logger_call_def winston_levels_def)

lemma process_waiting_Nil: "waiting p = [] \<Longrightarrow> process_waiting p = (None, p)"
  by (simp add: process_waiting_def)

lemma process_waiting_Cons:
  "waiting p = h # hs \<Longrightarrow> process_waiting p = (Some TypeError, p\<lparr>waiting := hs\<rparr>)"
  by (simp add: process_waiting_def logger_ingo)

lemma process_waiting_state: "snd (process_waiting p) = p\<lparr>waiting := tl (waiting p)\<rparr>"
  by (cases "waiting p") (simp_all add: process_waiting_Nil process_waiting_Cons)

lemma sockets_process_waiting: "sockets (snd (process_waiting p)) = sockets p"
  by (simp add: process_waiting_state)

text \<open>
  C1 (FIFO lending), evaluated on the code: handler 1 asks for a socket while none is
  idle and is queued; then socket 5 is admitted. The claim has the admitted socket
  delivered to the oldest waiter. The code takes handler 1 off the queue and throws a
  TypeError out of \<open>_handle_socket\<close>: no handler has been called, socket 5 sits in the
  idle list and the queue is empty.
\<close>

theorem fifo_lending_fails_at_first_admit:
  "fire (Connection 5)
     (run [Start 4000, Next_socket 1]
        (new_Proxy \<lparr>opt_id = ''abcd'', opt_max_tcp_sockets = None\<rparr>))
   = (Some TypeError,
      \<lparr>sockets = [5], waiting = [], ident = ''abcd'', max_tcp_sockets = 10,
        started = True, conn_timeout = False, listening = True, destroyed = [],
        calls = [], ended = [], end_emitted = 0, admitted = [5], lent = [], closed = []\<rparr>)"
  by (simp add: pool_defs logger_ingo)

text \<open>
  C2: whenever the pool takes a waiter off the queue, the call of the missing method
  \<open>logger.ingo\<close> throws a TypeError before \<open>next_socket\<close> runs. With a non-empty waiter
  queue, \<open>_process_waiting\<close> itself, the admission of a socket below the cap, and the
  completion of a handler that leaves an idle socket (the released one, or another one)
  all end in the TypeError with the head waiter removed and no handler called.
\<close>

theorem dequeue_raises_TypeError:
  assumes "waiting p \<noteq> []"
  shows "process_waiting p = (Some TypeError, p\<lparr>waiting := tl (waiting p)\<rparr>)
     \<and> (length (sockets p) < max_tcp_sockets p \<longrightarrow>
          handle_socket s p =
            (Some TypeError,
             p\<lparr>conn_timeout := False, sockets := sockets p @ [s],
               admitted := admitted p @ [s], waiting := tl (waiting p)\<rparr>))
     \<and> (s \<notin> set (destroyed p) \<or> sockets p \<noteq> [] \<longrightarrow>
          fst (next_socket_finally s p) = Some TypeError
          \<and> waiting (snd (next_socket_finally s p)) = tl (waiting p)
          \<and> calls (snd (next_socket_finally s p)) = calls p)"
proof -
  from assms obtain h hs where w: "waiting p = h # hs"
    by (cases "waiting p") auto
  have a: "process_waiting p = (Some TypeError, p\<lparr>waiting := tl (waiting p)\<rparr>)"
    using w by (simp add: process_waiting_Cons)
  have b: "handle_socket s p =
            (Some TypeError,
             p\<lparr>conn_timeout := False, sockets := sockets p @ [s],
               admitted := admitted p @ [s], waiting := tl (waiting p)\<rparr>)"
    if "length (sockets p) < max_tcp_sockets p"
    using that w by (simp add: handle_socket_def process_waiting_Cons)
  have c: "fst (next_socket_finally s p) = Some TypeError
          \<and> waiting (snd (next_socket_finally s p)) = tl (waiting p)
          \<and> calls (snd (next_socket_finally s p)) = calls p"
    if "s \<notin> set (destroyed p) \<or> sockets p \<noteq> []"
    using that w by (auto simp add: next_socket_finally_def Let_def process_waiting_Cons)
  from a b c show ?thesis by blast
qed

text \<open>
  C2 at a concrete pool: two handlers are queued, then socket 5 is admitted.
\<close>

theorem dequeue_raises_TypeError_witness:
  "waiting (run [Start 4000, Next_socket 1, Next_socket 2]
              (new_Proxy \<lparr>opt_id = ''abcd'', opt_max_tcp_sockets = None\<rparr>)) \<noteq> []
   \<and> length (sockets (run [Start 4000, Next_socket 1, Next_socket 2]
              (new_Proxy \<lparr>opt_id = ''abcd'', opt_max_tcp_sockets = None\<rparr>)))
       < max_tcp_sockets (run [Start 4000, Next_socket 1, Next_socket 2]
              (new_Proxy \<lparr>opt_id = ''abcd'', opt_max_tcp_sockets = None\<rparr>))
   \<and> 5 \<notin> set (destroyed (run [Start 4000, Next_socket 1, Next_socket 2]
              (new_Proxy \<lparr>opt_id = ''abcd'', opt_max_tcp_sockets = None\<rparr>)))
   \<and> process_waiting (run [Start 4000, Next_socket 1, Next_socket 2]
              (new_Proxy \<lparr>opt_id = ''abcd'', opt_max_tcp_sockets = None\<rparr>))
     = (Some TypeError,
        \<lparr>sockets = [], waiting = [2], ident = ''abcd'', max_tcp_sockets = 10,
          started = True, conn_timeout = True, listening = True, destroyed = [],
          calls = [], ended = [], end_emitted = 0, admitted = [], lent = [], closed = []\<rparr>)
   \<and> handle_socket 5 (run [Start 4000, Next_socket 1, Next_socket 2]
              (new_Proxy \<lparr>opt_id = ''abcd'', opt_max_tcp_sockets = None\<rparr>))
     = (Some TypeError,
        \<lparr>sockets = [5], waiting = [2], ident = ''abcd'', max_tcp_sockets = 10,
          started = True, conn_timeout = False, listening = True, destroyed = [],
          calls = [], ended = [], end_emitted = 0, admitted = [5], lent = [], closed = []\<rparr>)
   \<and> fst (next_socket_finally 5 (run [Start 4000, Next_socket 1, Next_socket 2]
              (new_Proxy \<lparr>opt_id = ''abcd'', opt_max_tcp_sockets = None\<rparr>)))
     = Some TypeError
   \<and> calls (snd (next_socket_finally 5 (run [Start 4000, Next_socket 1, Next_socket 2]
              (new_Proxy \<lparr>opt_id = ''abcd'', opt_max_tcp_sockets = None\<rparr>)))) = []"
  using dequeue_raises_TypeError
    [of "run [Start 4000, Next_socket 1, Next_socket 2]
              (new_Proxy \<lparr>opt_id = ''abcd'', opt_max_tcp_sockets = None\<rparr>)" 5]
  by (simp add: pool_defs)

text \<open>
  What does work around the dequeue path: a handler called with \<open>finished\<close> set does
  nothing and resolves at once; and a socket released while no handler waits is lent to
  the next caller of \<open>next_socket\<close>.
\<close>

lemma bounce_handler_finished: "bounce_handler req res sock True arg = ([], At_once)"
  by (simp add: bounce_handler_def)

lemma release_then_next_socket:
  assumes "waiting p = []" and "s \<notin> set (destroyed p)" and "sockets p = []"
  shows "next_socket h (snd (next_socket_finally s p))
           = p\<lparr>lent := remove1 s (lent p) @ [s], calls := calls p @ [(h, Some s)]\<rparr>"
  using assms
  by (simp add: next_socket_finally_def Let_def process_waiting_Nil next_socket_def)

text \<open>
  C9 (peer-disconnect safety), evaluated on the code. A handler called with the flag
  \<open>finished\<close> set does nothing and resolves at once, as the claim says. But a handler
  whose peer left while it was queued is never called at all: with handlers 1 (peer
  gone) and 2 queued, admitting socket 5 throws the TypeError, no handler is called and
  handler 1 is dropped. And a socket that comes back is not handed to the next waiter:
  with socket 5 lent to handler 1 and handler 2 queued, the completion of handler 1 puts
  socket 5 back in the idle list, drops handler 2 from the queue and throws; handler 2
  is never called.
\<close>

theorem finished_peer_waiter_never_served:
  "bounce_handler
      \<lparr>http_method = ''GET'', url = ''/'', httpVersion = ''1.1'',
        headers = [(''host'', ''abcd.example.com'')],
        rawHeaders = [''Host'', ''abcd.example.com'']\<rparr> True False True (Some 5)
     = ([], At_once)
   \<and> fire (Connection 5)
       (run [Start 4000, Next_socket 1, Next_socket 2]
          (new_Proxy \<lparr>opt_id = ''abcd'', opt_max_tcp_sockets = None\<rparr>))
     = (Some TypeError,
        \<lparr>sockets = [5], waiting = [2], ident = ''abcd'', max_tcp_sockets = 10,
          started = True, conn_timeout = False, listening = True, destroyed = [],
          calls = [], ended = [], end_emitted = 0, admitted = [5], lent = [], closed = []\<rparr>)
   \<and> fire (Settled 5)
       (run [Start 4000, Connection 5, Next_socket 1, Next_socket 2]
          (new_Proxy \<lparr>opt_id = ''abcd'', opt_max_tcp_sockets = None\<rparr>))
     = (Some TypeError,
        \<lparr>sockets = [5], waiting = [], ident = ''abcd'', max_tcp_sockets = 10,
          started = True, conn_timeout = False, listening = True, destroyed = [],
          calls = [(1, Some 5)], ended = [], end_emitted = 0, admitted = [5], lent = [],
          closed = []\<rparr>)"
  by (simp add: pool_defs bounce_handler_def logger_ingo)

section \<open>Upgrade requests\<close>

text \<open>
  C3 as stated fails: the handler of an upgrade request resolves when the tunnel socket
  signals end, and the completion path of \<open>next_socket\<close> looks only at the socket's
  \<open>destroyed\<close> flag. Socket 1 is lent to the upgrade handler 7; when the handler's promise
  settles and the flag is not set, socket 1 is back in the idle list.
\<close>

theorem upgrade_socket_back_in_idle_list:
  "snd (bounce_handler
          \<lparr>http_method = ''GET'', url = ''/ws'', httpVersion = ''1.1'',
            headers = [(''host'', ''abcd.example.com''), (''upgrade'', ''websocket'')],
            rawHeaders = [''Host'', ''abcd.example.com'', ''Upgrade'', ''websocket'']\<rparr>
          False True False (Some 1)) = On_socket_end 1
   \<and> sockets (run [Start 4000, Connection 1, Next_socket 7, Settled 1]
                (new_Proxy \<lparr>opt_id = ''abcd'', opt_max_tcp_sockets = None\<rparr>)) = [1]"
  by (simp add: pool_defs bounce_handler_def)

text \<open>
  C3, amended: the handler of an upgrade request wires the two pipes, writes the
  preamble and resolves when the tunnel socket signals end; it does not destroy the
  tunnel socket. When it completes, the tunnel socket is left out of the idle list if
  its \<open>destroyed\<close> flag is set at that moment, and is appended to the idle list otherwise.
\<close>

theorem upgrade_socket_returned_unless_destroyed:
  "bounce_handler req False sock False (Some s)
     = ([Pipe_socket_to_sock s, Pipe_sock_to_socket s, Socket_write s (preamble req)],
        On_socket_end s)
   \<and> sockets (snd (next_socket_finally s p))
     = (if s \<in> set (destroyed p) then sockets p else sockets p @ [s])"
  by (simp add: bounce_handler_def next_socket_finally_def Let_def sockets_process_waiting)

text \<open>
  C10: for an upgrade request with a host header whose subdomain names a registered
  client, what the listener does and the handler it registers do not depend on \<open>head\<close>;
  however the handler is called, the only bytes it writes to a tunnel socket are the
  preamble (when it is lent that socket and the peer has not ended), so the tunnel
  socket receives the preamble followed by the chunks the peer socket emits after the
  pipes are wired. The bytes of \<open>head\<close> are not among them.
\<close>

theorem upgrade_head_discarded:
  assumes "map_of (headers req) ''host'' = Some hostname" and "hostname \<noteq> []"
    and "getSubdomain hostname = Some subdomain" and "subdomain \<noteq> []"
    and "clnts subdomain = Some client"
  shows "on_upgrade getSubdomain clnts req head
           = ([Sock_once_end], Some (subdomain, bounce_handler req False True))
     \<and> fst (bounce_handler req False True False (Some s))
           = [Pipe_socket_to_sock s, Pipe_sock_to_socket s, Socket_write s (preamble req)]
     \<and> written s (fst (bounce_handler req False True finished arg))
           = (if \<not> finished \<and> arg = Some s then preamble req else [])
     \<and> tunnel_input s (fst (bounce_handler req False True False (Some s))) chunks
           = preamble req @ concat chunks"
  using assms
  by (auto simp add: on_upgrade_def maybe_bounce_def bounce_handler_def tunnel_input_def
      split: option.splits)

text \<open>
  C10 at a concrete request: the parser had already read \<open>early frame\<close> from the peer;
  the tunnel socket receives the preamble and the later chunk only.
\<close>

theorem upgrade_head_discarded_witness:
  "map_of [(''host'', ''abcd.example.com''), (''upgrade'', ''websocket'')] ''host''
     = Some ''abcd.example.com''
   \<and> [''abcd'' \<mapsto> new_Proxy \<lparr>opt_id = ''abcd'', opt_max_tcp_sockets = None\<rparr>] ''abcd''
     = Some (new_Proxy \<lparr>opt_id = ''abcd'', opt_max_tcp_sockets = None\<rparr>)
   \<and> on_upgrade (\<lambda>h. if h = ''abcd.example.com'' then Some ''abcd'' else None)
      [''abcd'' \<mapsto> new_Proxy \<lparr>opt_id = ''abcd'', opt_max_tcp_sockets = None\<rparr>]
      \<lparr>http_method = ''GET'', url = ''/ws'', httpVersion = ''1.1'',
        headers = [(''host'', ''abcd.example.com''), (''upgrade'', ''websocket'')],
        rawHeaders = [''Host'', ''abcd.example.com'', ''Upgrade'', ''websocket'']\<rparr>
      (Some ''early frame'')
    = ([Sock_once_end],
       Some (''abcd'',
         bounce_handler
           \<lparr>http_method = ''GET'', url = ''/ws'', httpVersion = ''1.1'',
             headers = [(''host'', ''abcd.example.com''), (''upgrade'', ''websocket'')],
             rawHeaders = [''Host'', ''abcd.example.com'', ''Upgrade'', ''websocket'']\<rparr>
           False True))
   \<and> tunnel_input 5
        (fst (bounce_handler
           \<lparr>http_method = ''GET'', url = ''/ws'', httpVersion = ''1.1'',
             headers = [(''host'', ''abcd.example.com''), (''upgrade'', ''websocket'')],
             rawHeaders = [''Host'', ''abcd.example.com'', ''Upgrade'', ''websocket'']\<rparr>
           False True False (Some 5)))
        [''later'']
    = ''GET /ws HTTP/1.1'' @ crlf @ ''Host: abcd.example.com'' @ crlf
      @ ''Upgrade: websocket'' @ crlf @ crlf @ ''later''"
  using upgrade_head_discarded
    [of "\<lparr>http_method = ''GET'', url = ''/ws'', httpVersion = ''1.1'',
          headers = [(''host'', ''abcd.example.com''), (''upgrade'', ''websocket'')],
          rawHeaders = [''Host'', ''abcd.example.com'', ''Upgrade'', ''websocket'']\<rparr>"
        "''abcd.example.com''"
        "\<lambda>h. if h = ''abcd.example.com'' then Some ''abcd'' else None"
        "''abcd''"
        "[''abcd'' \<mapsto> new_Proxy \<lparr>opt_id = ''abcd'', opt_max_tcp_sockets = None\<rparr>]"
        "new_Proxy \<lparr>opt_id = ''abcd'', opt_max_tcp_sockets = None\<rparr>"
        "Some ''early frame''" 5 False "Some 5" "[''later'']"]
  by (simp add: preamble_def crlf_def bounce_handler_def tunnel_input_def)

section \<open>Conservation of sockets\<close>

lemma pool_inv_waiting [simp]: "pool_inv (p\<lparr>waiting := w\<rparr>) = pool_inv p"
  by (simp add: pool_inv_def)

lemma pool_inv_maybe_destroy [simp]: "pool_inv (maybe_destroy p) = pool_inv p"
  by (simp add: pool_inv_def maybe_destroy_def)

lemma pool_inv_new: "pool_inv (new_Proxy opt)"
  by (simp add: pool_inv_def new_Proxy_def)

lemma pool_inv_handle_socket:
  assumes "pool_inv p" "s \<notin> set (admitted p)"
  shows "pool_inv (snd (handle_socket s p))"
proof (cases "length (sockets p) \<ge> max_tcp_sockets p")
  case True
  then show ?thesis using assms by (simp add: handle_socket_def pool_inv_def)
next
  case False
  have "s \<notin> set (sockets p)" "s \<notin> set (lent p)" "s \<notin> set (closed p)"
    using assms by (auto simp: pool_inv_def)
  then have "pool_inv (p\<lparr>conn_timeout := False, sockets := sockets p @ [s],
                         admitted := admitted p @ [s]\<rparr>)"
    using assms by (auto simp: pool_inv_def)
  then show ?thesis using False
    by (simp add: handle_socket_def process_waiting_state)
qed

lemma pool_inv_next_socket:
  assumes "pool_inv p"
  shows "pool_inv (next_socket h p)"
proof (cases "sockets p")
  case Nil
  then show ?thesis using assms by (simp add: next_socket_def)
next
  case (Cons s rest)
  then show ?thesis using assms by (auto simp: next_socket_def pool_inv_def)
qed

lemma pool_inv_finally:
  assumes "pool_inv p" "s \<in> set (lent p)"
  shows "pool_inv (snd (next_socket_finally s p))"
proof -
  have d: "distinct (lent p)" "s \<notin> set (sockets p)"
    using assms by (auto simp: pool_inv_def)
  have r: "set (remove1 s (lent p)) = set (lent p) - {s}"
    using d by simp
  have base: "pool_inv (if s \<in> set (destroyed p) then p\<lparr>lent := remove1 s (lent p)\<rparr>
                else p\<lparr>lent := remove1 s (lent p), sockets := sockets p @ [s]\<rparr>)"
  proof (cases "s \<in> set (destroyed p)")
    case True
    then show ?thesis using assms d r by (auto simp: pool_inv_def)
  next
    case False
    then have "s \<notin> set (closed p)" using assms by (auto simp: pool_inv_def)
    then show ?thesis using False assms d r by (auto simp: pool_inv_def)
  qed
  show ?thesis
    using base
    by (auto simp: next_socket_finally_def Let_def process_waiting_state split: if_splits)
qed

lemma pool_inv_close:
  assumes "pool_inv p" "s \<in> set (admitted p)"
  shows "pool_inv (socket_close s (p\<lparr>destroyed := List.insert s (destroyed p)\<rparr>))"
proof -
  have d: "distinct (sockets p)" using assms by (simp add: pool_inv_def)
  have r: "set (remove1 s (sockets p)) = set (sockets p) - {s}"
    using d by simp
  have "pool_inv (p\<lparr>destroyed := List.insert s (destroyed p),
                     sockets := remove1 s (sockets p), closed := closed p @ [s]\<rparr>)"
    using assms d r by (auto simp: pool_inv_def)
  then show ?thesis
    by (auto simp: socket_close_def Let_def)
qed

lemma pool_inv_fire:
  assumes "pool_inv p" "fresh_connections [e] p"
  shows "pool_inv (snd (fire e p))"
proof (cases e)
  case (Start n)
  then show ?thesis using assms by (simp add: start_def maybe_destroy_def pool_inv_def)
next
  case (Connection s)
  then show ?thesis using assms by (simp add: pool_inv_handle_socket)
next
  case (Next_socket h)
  then show ?thesis using assms by (simp add: pool_inv_next_socket)
next
  case (Settled s)
  then show ?thesis using assms by (simp add: pool_inv_finally)
next
  case (Close_socket s)
  then show ?thesis using assms by (simp add: pool_inv_close)
next
  case (Error_socket s)
  then show ?thesis using assms by (auto simp: socket_error_def pool_inv_def)
next
  case Timeout
  then show ?thesis using assms
    by (simp add: timer_callback_def server_close_def cleanup_def pool_inv_def)
next
  case Server_closed
  then show ?thesis using assms by (simp add: cleanup_def pool_inv_def)
qed

lemma fresh_connections_Cons:
  "fresh_connections (e # es) p =
     (fresh_connections [e] p \<and> fresh_connections es (snd (fire e p)))"
  by (cases e) simp_all

lemma pool_inv_run:
  "pool_inv p \<Longrightarrow> fresh_connections evs p \<Longrightarrow> pool_inv (run evs p)"
proof (induction evs arbitrary: p)
  case Nil
  then show ?case by simp
next
  case (Cons e es)
  from Cons.prems(2) have f: "fresh_connections [e] p" "fresh_connections es (snd (fire e p))"
    by (simp_all only: fresh_connections_Cons [of e es p])
  from Cons.prems(1) f(1) have "pool_inv (snd (fire e p))" by (rule pool_inv_fire)
  with f(2) show ?case by (simp add: Cons.IH del: fire.simps)
qed

lemma pool_inv_size:
  assumes "pool_inv p" "set (lent p) \<inter> set (closed p) = {}"
    "set (destroyed p) \<subseteq> set (closed p)"
  shows "length (sockets p) + length (lent p) = pool_size p"
proof -
  have "set (sockets p @ lent p) = set (filter (\<lambda>s. s \<notin> set (closed p)) (admitted p))"
    using assms by (auto simp: pool_inv_def)
  moreover have "distinct (sockets p @ lent p)"
    using assms by (simp add: pool_inv_def)
  moreover have "distinct (filter (\<lambda>s. s \<notin> set (closed p)) (admitted p))"
    using assms by (simp add: pool_inv_def)
  ultimately have "length (sockets p @ lent p)
      = length (filter (\<lambda>s. s \<notin> set (closed p)) (admitted p))"
    by (metis distinct_card)
  then show ?thesis by (simp add: pool_size_def)
qed

text \<open>
  C4 as stated fails. Socket 5 is admitted and lent to handler 1, then it closes while
  the handler still holds it: no socket is idle, one is in flight, and the size (admitted
  and not closed) is 0; socket 5 is in flight and destroyed at once. And with socket 5
  lent to handler 1 and handlers 2 and 3 queued, the completion of handler 1 leaves
  socket 5 idle while handler 3 waits.
\<close>

theorem closed_while_lent_breaks_conservation:
  "length (sockets (run [Start 4000, Connection 5, Next_socket 1, Close_socket 5]
              (new_Proxy \<lparr>opt_id = ''abcd'', opt_max_tcp_sockets = None\<rparr>)))
   + length (lent (run [Start 4000, Connection 5, Next_socket 1, Close_socket 5]
              (new_Proxy \<lparr>opt_id = ''abcd'', opt_max_tcp_sockets = None\<rparr>)))
   \<noteq> pool_size (run [Start 4000, Connection 5, Next_socket 1, Close_socket 5]
              (new_Proxy \<lparr>opt_id = ''abcd'', opt_max_tcp_sockets = None\<rparr>))
   \<and> 5 \<in> set (lent (run [Start 4000, Connection 5, Next_socket 1, Close_socket 5]
              (new_Proxy \<lparr>opt_id = ''abcd'', opt_max_tcp_sockets = None\<rparr>)))
   \<and> 5 \<in> set (destroyed (run [Start 4000, Connection 5, Next_socket 1, Close_socket 5]
              (new_Proxy \<lparr>opt_id = ''abcd'', opt_max_tcp_sockets = None\<rparr>)))
   \<and> sockets (run [Start 4000, Connection 5, Next_socket 1, Next_socket 2, Next_socket 3,
                    Settled 5]
              (new_Proxy \<lparr>opt_id = ''abcd'', opt_max_tcp_sockets = None\<rparr>)) = [5]
   \<and> waiting (run [Start 4000, Connection 5, Next_socket 1, Next_socket 2, Next_socket 3,
                    Settled 5]
              (new_Proxy \<lparr>opt_id = ''abcd'', opt_max_tcp_sockets = None\<rparr>)) = [3]"
  by (simp add: pool_defs pool_size_def logger_ingo)

text \<open>
  C4, amended: after any run of events in which every connection is a new socket, the
  idle list has no duplicates, no socket is lent twice, no socket is both idle and in
  flight, no closed socket is idle, and every admitted socket is idle, in flight or
  destroyed; and at every point where no in-flight socket has closed and every destroyed
  socket has had its close event, the number of idle sockets plus the number of
  in-flight sockets equals the size. (Nothing is said of the idle list while handlers
  wait.)
\<close>

theorem pool_conservation:
  assumes "fresh_connections evs (new_Proxy opt)"
  shows "distinct (sockets (run evs (new_Proxy opt)))
     \<and> distinct (lent (run evs (new_Proxy opt)))
     \<and> set (sockets (run evs (new_Proxy opt))) \<inter> set (lent (run evs (new_Proxy opt))) = {}
     \<and> set (sockets (run evs (new_Proxy opt))) \<inter> set (closed (run evs (new_Proxy opt))) = {}
     \<and> (\<forall>s \<in> set (admitted (run evs (new_Proxy opt))).
           s \<in> set (sockets (run evs (new_Proxy opt)))
           \<or> s \<in> set (lent (run evs (new_Proxy opt)))
           \<or> s \<in> set (destroyed (run evs (new_Proxy opt))))
     \<and> (set (lent (run evs (new_Proxy opt))) \<inter> set (closed (run evs (new_Proxy opt))) = {}
          \<and> set (destroyed (run evs (new_Proxy opt))) \<subseteq> set (closed (run evs (new_Proxy opt)))
        \<longrightarrow> length (sockets (run evs (new_Proxy opt))) + length (lent (run evs (new_Proxy opt)))
            = pool_size (run evs (new_Proxy opt)))"
proof -
  have inv: "pool_inv (run evs (new_Proxy opt))"
    using assms by (simp add: pool_inv_run pool_inv_new)
  then have "distinct (sockets (run evs (new_Proxy opt)))"
    and "distinct (lent (run evs (new_Proxy opt)))"
    and "set (sockets (run evs (new_Proxy opt))) \<inter> set (lent (run evs (new_Proxy opt))) = {}"
    and "set (sockets (run evs (new_Proxy opt))) \<inter> set (closed (run evs (new_Proxy opt))) = {}"
    and "\<forall>s \<in> set (admitted (run evs (new_Proxy opt))).
           s \<in> set (sockets (run evs (new_Proxy opt)))
           \<or> s \<in> set (lent (run evs (new_Proxy opt)))
           \<or> s \<in> set (destroyed (run evs (new_Proxy opt)))"
    by (auto simp: pool_inv_def)
  with pool_inv_size [OF inv] show ?thesis by blast
qed

text \<open>
  C4, amended, at a concrete run: sockets 5 and 6 are admitted, 5 is lent, 6 closes
  while idle. No socket is idle, one is in flight, and the size is 1.
\<close>

theorem pool_conservation_witness:
  "fresh_connections [Start 4000, Connection 5, Connection 6, Next_socket 1, Close_socket 6]
     (new_Proxy \<lparr>opt_id = ''abcd'', opt_max_tcp_sockets = None\<rparr>)
   \<and> sockets (run [Start 4000, Connection 5, Connection 6, Next_socket 1, Close_socket 6]
        (new_Proxy \<lparr>opt_id = ''abcd'', opt_max_tcp_sockets = None\<rparr>)) = []
   \<and> lent (run [Start 4000, Connection 5, Connection 6, Next_socket 1, Close_socket 6]
        (new_Proxy \<lparr>opt_id = ''abcd'', opt_max_tcp_sockets = None\<rparr>)) = [5]
   \<and> closed (run [Start 4000, Connection 5, Connection 6, Next_socket 1, Close_socket 6]
        (new_Proxy \<lparr>opt_id = ''abcd'', opt_max_tcp_sockets = None\<rparr>)) = [6]
   \<and> destroyed (run [Start 4000, Connection 5, Connection 6, Next_socket 1, Close_socket 6]
        (new_Proxy \<lparr>opt_id = ''abcd'', opt_max_tcp_sockets = None\<rparr>)) = [6]
   \<and> pool_size (run [Start 4000, Connection 5, Connection 6, Next_socket 1, Close_socket 6]
        (new_Proxy \<lparr>opt_id = ''abcd'', opt_max_tcp_sockets = None\<rparr>)) = 1"
  using pool_conservation
    [of "[Start 4000, Connection 5, Connection 6, Next_socket 1, Close_socket 6]"
        "\<lparr>opt_id = ''abcd'', opt_max_tcp_sockets = None\<rparr>"]
  by (simp add: pool_defs pool_size_def)

section \<open>The cap on sockets\<close>

text \<open>
  The guard of \<open>_handle_socket\<close> by itself: with the idle list at the cap the socket is
  ended and nothing else changes; below the cap the idle list stays within the cap
  right after the admission.
\<close>

lemma handle_socket_at_cap:
  "max_tcp_sockets p \<le> length (sockets p) \<Longrightarrow>
     handle_socket s p = (None, p\<lparr>ended := ended p @ [s]\<rparr>)"
  by (simp add: handle_socket_def)

lemma handle_socket_below_cap:
  "length (sockets p) < max_tcp_sockets p \<Longrightarrow>
     length (sockets (snd (handle_socket s p))) \<le> max_tcp_sockets p"
  by (simp add: handle_socket_def sockets_process_waiting)

text \<open>
  C5 (cap enforcement), evaluated on the code with \<open>max_tcp_sockets = 1\<close>: socket 1 is
  admitted and lent to handler 7; the idle list is empty again, so socket 2 is admitted
  as well (nothing is refused: \<open>ended\<close> stays empty) and the pool holds two sockets, one
  idle and one in flight. When handler 7 completes, socket 1 is pushed back without a
  check and the idle list alone holds two sockets.
\<close>

theorem cap_exceeded_by_lent_sockets:
  "run [Start 4000, Connection 1, Next_socket 7, Connection 2]
     (new_Proxy \<lparr>opt_id = ''abcd'', opt_max_tcp_sockets = Some 1\<rparr>)
   = \<lparr>sockets = [2], waiting = [], ident = ''abcd'', max_tcp_sockets = 1,
       started = True, conn_timeout = False, listening = True, destroyed = [],
       calls = [(7, Some 1)], ended = [], end_emitted = 0, admitted = [1, 2], lent = [1],
       closed = []\<rparr>
   \<and> run [Start 4000, Connection 1, Next_socket 7, Connection 2, Settled 1]
     (new_Proxy \<lparr>opt_id = ''abcd'', opt_max_tcp_sockets = Some 1\<rparr>)
   = \<lparr>sockets = [2, 1], waiting = [], ident = ''abcd'', max_tcp_sockets = 1,
       started = True, conn_timeout = False, listening = True, destroyed = [],
       calls = [(7, Some 1)], ended = [], end_emitted = 0, admitted = [1, 2], lent = [],
       closed = []\<rparr>"
  by (simp add: pool_defs)

section \<open>Shutdown\<close>

text \<open>
  What the timer callback and the close listener do: the timer callback closes the
  server and throws nothing; every close event of the server runs \<open>_cleanup\<close>, which
  emits \<open>end\<close> once; so over any run of events the number of \<open>end\<close> signals is the
  number of close events of the server.
\<close>

lemma timer_callback_closes:
  "timer_callback p = p\<lparr>conn_timeout := False, listening := False\<rparr>"
  by (simp add: timer_callback_def server_close_def)

lemma end_emitted_fire:
  "end_emitted (snd (fire e p)) = end_emitted p + (if runs_cleanup e p then 1 else 0)"
proof (cases e)
  case (Connection s)
  then show ?thesis
    by (simp add: handle_socket_def process_waiting_state)
next
  case (Settled s)
  then show ?thesis
    by (simp add: next_socket_finally_def Let_def process_waiting_state)
next
  case (Next_socket h)
  then show ?thesis by (simp add: next_socket_def split: list.splits)
qed (simp_all add: pool_defs Let_def)

lemma end_emitted_run: "end_emitted (run evs p) = end_emitted p + cleanup_runs evs p"
proof (induction evs arbitrary: p)
  case Nil
  show ?case by simp
next
  case (Cons e es)
  show ?case
    by (simp add: Cons.IH end_emitted_fire del: fire.simps runs_cleanup.simps)
qed



text \<open>
  C7 (\<open>end\<close> exactly once), evaluated on the code. Socket 5 is lent to handler 1 and
  socket 6 is idle. Socket 6 closes, the idle list is empty and the timer is armed; the
  timer closes the server while socket 5 is still connected. When socket 5 goes, the
  server emits close and \<open>_cleanup\<close> emits \<open>end\<close>; then the close listener of socket 5
  finds the idle list empty and arms the timer on the tunnel that has ended. The timer
  calls \<open>server.close()\<close> again, the server emits close again and \<open>_cleanup\<close> emits \<open>end\<close> a
  second time. The registry's listener runs at each \<open>end\<close>: for the one tunnel created,
  \<open>stats.tunnels\<close> goes from 1 to -1.
\<close>

theorem end_emitted_twice:
  "run [Start 4000, Connection 5, Connection 6, Next_socket 1,
        Close_socket 6, Timeout, Server_closed, Close_socket 5, Timeout, Server_closed]
     (new_Proxy \<lparr>opt_id = ''abcd'', opt_max_tcp_sockets = None\<rparr>)
   = \<lparr>sockets = [], waiting = [], ident = ''abcd'', max_tcp_sockets = 10,
       started = True, conn_timeout = False, listening = False, destroyed = [5, 6],
       calls = [(1, Some 5)], ended = [], end_emitted = 2, admitted = [5, 6], lent = [5],
       closed = [6, 5]\<rparr>
   \<and> tunnels (snd (new_client ''abcd'' \<lparr>secure = False, srv_max_tcp_sockets = None\<rparr>
                      ''wxyz'' 4000 \<lparr>clients = Map.empty, tunnels = 0\<rparr>)) = 1
   \<and> tunnels (client_end ''abcd'' (client_end ''abcd''
        (snd (new_client ''abcd'' \<lparr>secure = False, srv_max_tcp_sockets = None\<rparr>
                ''wxyz'' 4000 \<lparr>clients = Map.empty, tunnels = 0\<rparr>)))) = - 1"
  by (simp add: pool_defs new_client_def client_end_def Let_def)

section \<open>The create response\<close>

text \<open>
  When the requested id is free, \<open>new_client\<close> keeps it and the url of the response is
  built from the id of the response.
\<close>

lemma new_client_free_id:
  "clients reg id0 = None \<Longrightarrow>
     fst (new_client id0 opt rnd prt reg)
       = Inr \<lparr>port = prt,
              max_conn_count =
                (case srv_max_tcp_sockets opt of None \<Rightarrow> 10 | Some n \<Rightarrow> if n = 0 then 10 else n),
              info_id = id0\<rparr>"
  by (simp add: new_client_def start_def new_Proxy_def maybe_destroy_def Let_def)

lemma get_req_id_free_id:
  assumes "valid_req_id req_id" and "clients reg req_id = None"
  shows "\<exists>info. fst (get_req_id opt req_id host rnd prt reg) = Json info
           \<and> info_url info = schema opt @ ''://'' @ info_id info @ ''.'' @ host_text host"
  using assms
  by (simp add: get_req_id_def new_client_def start_def new_Proxy_def maybe_destroy_def Let_def)

text \<open>
  C8 (create response consistency), evaluated on the code: \<open>GET /abcd\<close> on host
  \<open>example.com\<close> creates tunnel \<open>abcd\<close>; a second \<open>GET /abcd\<close> finds the id in use and
  \<open>new_client\<close> substitutes the random id \<open>wxyz\<close>. The response carries the id \<open>wxyz\<close>
  and a url built from the requested id \<open>abcd\<close>.
\<close>

theorem url_built_from_requested_id:
  "fst (get_req_id \<lparr>secure = False, srv_max_tcp_sockets = None\<rparr>
          ''abcd'' (Some ''example.com'') ''wxyz'' 4001
          (snd (get_req_id \<lparr>secure = False, srv_max_tcp_sockets = None\<rparr>
                  ''abcd'' (Some ''example.com'') ''wxyz'' 4000
                  \<lparr>clients = Map.empty, tunnels = 0\<rparr>)))
   = Json \<lparr>port = 4001, max_conn_count = 10, info_id = ''wxyz'',
            info_url = ''http://abcd.example.com''\<rparr>"
  by (simp add: get_req_id_def valid_req_id_def new_client_def start_def new_Proxy_def
      maybe_destroy_def schema_def host_text_def Let_def)

end
